theory Spec2Isabelle
  imports Main "HOL-Library.Sublist"
begin

section \<open>Python values and their string forms\<close>

text \<open>
  The keyword arguments of \<^verbatim>\<open>BotoCoreError.__init__(self, **kwargs)\<close> are arbitrary
  Python objects. The model covers the values the callers of the module pass: \<^verbatim>\<open>None\<close>,
  booleans, integers, strings and lists of such values. Characters are the code points
  below 256.
\<close>

datatype pyval = PNone | PBool bool | PInt int | PStr string | PList "pyval list"

datatype py_error = TypeError | KeyError string | IndexError | ValueError | NotModelled

definition digit_char :: "nat \<Rightarrow> char" where
  "digit_char d = char_of (48 + d)"

fun str_nat :: "nat \<Rightarrow> string" where
  "str_nat n = (if n < 10 then [digit_char n] else str_nat (n div 10) @ [digit_char (n mod 10)])"

declare str_nat.simps [simp del]

definition str_int :: "int \<Rightarrow> string" where
  "str_int i = (if i < 0 then CHR ''-'' # str_nat (nat (- i)) else str_nat (nat i))"

definition hex_digit :: "nat \<Rightarrow> char" where
  "hex_digit d = (if d < 10 then char_of (48 + d) else char_of (87 + d))"

definition printable :: "char \<Rightarrow> bool" where
  \<comment> \<open>\<^verbatim>\<open>str.isprintable\<close> on the code points below 256\<close>
  "printable c =
     (let n = (of_char c :: nat)
      in (32 \<le> n \<and> n < 127) \<or> (161 \<le> n \<and> n \<noteq> 173))"

definition repr_char :: "char \<Rightarrow> char \<Rightarrow> string" where
  \<comment> \<open>one character of \<^verbatim>\<open>repr\<close> of a string whose quote character is \<open>q\<close>\<close>
  "repr_char q c =
     (if c = q \<or> c = CHR 0x5C then [CHR 0x5C, c]
      else if c = CHR 0x09 then [CHR 0x5C, CHR ''t'']
      else if c = CHR 0x0A then [CHR 0x5C, CHR ''n'']
      else if c = CHR 0x0D then [CHR 0x5C, CHR ''r'']
      else if printable c then [c]
      else [CHR 0x5C, CHR ''x'',
            hex_digit ((of_char c :: nat) div 16), hex_digit ((of_char c :: nat) mod 16)])"

definition repr_str :: "string \<Rightarrow> string" where
  \<comment> \<open>single quotes, unless the string has a single quote and no double quote\<close>
  "repr_str s =
     (let q = (if CHR 0x27 \<in> set s \<and> CHR 0x22 \<notin> set s then CHR 0x22 else CHR 0x27)
      in q # concat (map (repr_char q) s) @ [q])"

fun join :: "string \<Rightarrow> string list \<Rightarrow> string" where
  "join sep [] = []"
| "join sep [x] = x"
| "join sep (x # y # ys) = x @ sep @ join sep (y # ys)"

fun py_repr :: "pyval \<Rightarrow> string" where
  "py_repr PNone = ''None''"
| "py_repr (PBool b) = (if b then ''True'' else ''False'')"
| "py_repr (PInt i) = str_int i"
| "py_repr (PStr s) = repr_str s"
| "py_repr (PList xs) = ''['' @ join '', '' (map py_repr xs) @ '']''"

fun py_str :: "pyval \<Rightarrow> string" where
  "py_str (PStr s) = s"
| "py_str v = py_repr v"

section \<open>\<^verbatim>\<open>str.format(**kwargs)\<close>\<close>

text \<open>
  The only operation \<^verbatim>\<open>__init__\<close> performs on the template is
  \<^verbatim>\<open>self.fmt.format(**kwargs)\<close>, called with keyword arguments only. The model follows
  the scanner of the format-string mini-language from left to right: literal text is
  copied, \<^verbatim>\<open>{{\<close> and \<^verbatim>\<open>}}\<close> are the escaped braces, a single \<^verbatim>\<open>}\<close> or an unclosed
  \<^verbatim>\<open>{\<close> raises \<^verbatim>\<open>ValueError\<close>, and a replacement field \<^verbatim>\<open>{name}\<close> is looked up as soon
  as it has been read, so the first fault met from the left is the one raised.
  A field with an empty or all-digit name is positional; there are no positional
  arguments, so it raises \<^verbatim>\<open>IndexError\<close> (\<^verbatim>\<open>ValueError\<close> when the digits exceed the
  index range). Attribute and item access (\<^verbatim>\<open>.\<close>, \<^verbatim>\<open>[\<close>), conversions (\<^verbatim>\<open>!\<close>) and
  format specifications (\<^verbatim>\<open>:\<close>) are outside the modelled fragment and yield
  \<open>NotModelled\<close>; no template of the module uses them (lemma \<open>plain_segments\<close>).
\<close>

type_synonym kwargs = "string \<rightharpoonup> pyval"

definition is_digit :: "char \<Rightarrow> bool" where
  "is_digit c = (48 \<le> (of_char c :: nat) \<and> (of_char c :: nat) \<le> 57)"

definition digits_value :: "string \<Rightarrow> int" where
  "digits_value s = foldl (\<lambda>a c. 10 * a + (of_char c - 48)) 0 s"

definition ssize_max :: int where
  "ssize_max = 2 ^ 63 - 1"

definition get_field :: "kwargs \<Rightarrow> string \<Rightarrow> py_error + pyval" where
  "get_field kw name =
     (if CHR ''.'' \<in> set name then Inl NotModelled
      else if list_all is_digit name then
        (if digits_value name > ssize_max then Inl ValueError else Inl IndexError)
      else (case kw name of None \<Rightarrow> Inl (KeyError name) | Some v \<Rightarrow> Inr v))"

fun prepend :: "string \<Rightarrow> py_error + string \<Rightarrow> py_error + string" where
  "prepend s (Inl e) = Inl e"
| "prepend s (Inr t) = Inr (s @ t)"

fun format_literal :: "kwargs \<Rightarrow> string \<Rightarrow> py_error + string"
  and format_field :: "kwargs \<Rightarrow> string \<Rightarrow> string \<Rightarrow> py_error + string"
where
  "format_literal kw [] = Inr []"
| "format_literal kw [c] =
     (if c = CHR ''{'' \<or> c = CHR ''}'' then Inl ValueError else Inr [c])"
| "format_literal kw (c # d # cs) =
     (if c = CHR ''{'' then
        (if d = CHR ''{'' then prepend [c] (format_literal kw cs)
         else format_field kw [] (d # cs))
      else if c = CHR ''}'' then
        (if d = CHR ''}'' then prepend [c] (format_literal kw cs) else Inl ValueError)
      else prepend [c] (format_literal kw (d # cs)))"
| "format_field kw name [] = Inl ValueError"
| "format_field kw name (c # cs) =
     (if c = CHR ''}'' then
        (case get_field kw name of
           Inl e \<Rightarrow> Inl e
         | Inr v \<Rightarrow> prepend (py_str v) (format_literal kw cs))
      else if c = CHR ''{'' then Inl ValueError
      else if c = CHR ''['' \<or> c = CHR ''!'' \<or> c = CHR '':'' then Inl NotModelled
      else format_field kw (name @ [c]) cs)"

definition format :: "string \<Rightarrow> kwargs \<Rightarrow> py_error + string" where
  "format template kw = format_literal kw template"

section \<open>The exception classes\<close>

datatype kind =
    BotoCoreError | DataNotFoundError | NoCredentialsError | NoRegionError
  | UnknownSignatureVersionError | ServiceNotInRegionError | ProfileNotFound
  | ConfigParseError | ConfigNotFound | MissingParametersError | ValidationError
  | UnknownKeyError | RangeError | UnknownParameterError | UnknownServiceStyle
  | PaginationError | EventNotFound | ChecksumError | UnseekableStreamError
  | WaiterError | IncompleteReadError | InvalidExpressionError | UnknownCredentialError

fun fmt :: "kind \<Rightarrow> string" where
  "fmt BotoCoreError = ''An unspecified error occured''"
| "fmt DataNotFoundError = ''Unable to load data for: {data_path}''"
| "fmt NoCredentialsError = ''Unable to locate credentials''"
| "fmt NoRegionError =
     ''You must specify a region or set the {env_var} environment variable.''"
| "fmt UnknownSignatureVersionError = ''Unknown Signature Version: {signature_version}.''"
| "fmt ServiceNotInRegionError =
     ''Service {service_name} not available in region {region_name}''"
| "fmt ProfileNotFound = ''The config profile ({profile}) could not be found''"
| "fmt ConfigParseError = ''Unable to parse config file: {path}''"
| "fmt ConfigNotFound = ''The specified config file ({path}) could not be found.''"
| "fmt MissingParametersError =
     ''The following required parameters are missing for '' @
     ''{object_name}: {missing}''"
| "fmt ValidationError =
     ''Invalid value ('{value}') for param {param} '' @
     ''of type {type_name} ''"
| "fmt UnknownKeyError =
     ''Unknown key '{value}' for param '{param}'.  Must be one '' @
     ''of: {choices}''"
| "fmt RangeError =
     ''Value out of range for param {param}: '' @
     ''{min_value} <= {value} <= {max_value}''"
| "fmt UnknownParameterError =
     ''Unknown parameter '{name}' for operation {operation}.  Must be one '' @
     ''of: {choices}''"
| "fmt UnknownServiceStyle = ''The service style ({service_style}) is not understood.''"
| "fmt PaginationError = ''Error during pagination: {message}''"
| "fmt EventNotFound = ''The event ({event_name}) is not known''"
| "fmt ChecksumError =
     ''Checksum {checksum_type} failed, expected checksum '' @
     ''{expected_checksum} did not match calculated checksum '' @
     ''{actual_checksum}.''"
| "fmt UnseekableStreamError =
     ''Need to rewind the stream {stream_object}, but stream '' @
     ''is not seekable.''"
| "fmt WaiterError = ''Waiter {name} failed: {reason}''"
| "fmt IncompleteReadError =
     ''{actual_bytes} read, but total bytes '' @
     ''expected is {expected_bytes}.''"
| "fmt InvalidExpressionError =
     ''Invalid expression {expression}: Only dotted lookups are supported.''"
| "fmt UnknownCredentialError = ''Credential named {name} not found.''"

text \<open>The base class written in each \<^verbatim>\<open>class\<close> statement; \<open>None\<close> is the builtin
  \<^verbatim>\<open>Exception\<close>.\<close>

fun base :: "kind \<Rightarrow> kind option" where
  "base BotoCoreError = None"
| "base UnknownKeyError = Some ValidationError"
| "base RangeError = Some ValidationError"
| "base UnknownParameterError = Some ValidationError"
| "base k = Some BotoCoreError"

fun depth :: "kind \<Rightarrow> nat" where
  "depth BotoCoreError = 0"
| "depth UnknownKeyError = 2"
| "depth RangeError = 2"
| "depth UnknownParameterError = 2"
| "depth k = 1"

text \<open>The method resolution order of a class: the class, then its chain of bases.
  \<^verbatim>\<open>except C\<close> catches an instance exactly when \<open>C\<close> is in the order of its class.\<close>

function mro :: "kind \<Rightarrow> kind list" where
  "mro k = k # (case base k of None \<Rightarrow> [] | Some b \<Rightarrow> mro b)"
  by pat_completeness auto
termination
  by (relation "measure depth") (auto elim: base.elims)

declare mro.simps [simp del]

section \<open>Construction, string conversion and field access\<close>

text \<open>
  An instance carries its class, the \<^verbatim>\<open>args\<close> tuple that \<^verbatim>\<open>Exception.__init__(self, msg)\<close>
  stores, and the attribute \<^verbatim>\<open>kwargs\<close>.
\<close>

record error_instance =
  kind :: kind
  args :: "pyval list"
  kwargs :: kwargs

text \<open>
  The call \<^verbatim>\<open>K(**kw)\<close>. The signature is \<^verbatim>\<open>__init__(self, **kwargs)\<close>, so a keyword
  named \<^verbatim>\<open>self\<close> collides with the receiver and the call raises \<^verbatim>\<open>TypeError\<close> before the
  body runs. Otherwise the body formats the class attribute \<^verbatim>\<open>fmt\<close>, which every class
  of the module assigns itself, passes the message to \<^verbatim>\<open>Exception.__init__\<close> and keeps the
  keyword dictionary.
\<close>

definition construct :: "kind \<Rightarrow> kwargs \<Rightarrow> py_error + error_instance" where
  "construct K kw =
     (if kw ''self'' \<noteq> None then Inl TypeError
      else (case format (fmt K) kw of
              Inl e \<Rightarrow> Inl e
            | Inr msg \<Rightarrow> Inr \<lparr>kind = K, args = [PStr msg], kwargs = kw\<rparr>))"

text \<open>\<^verbatim>\<open>str(e)\<close> of an exception: the empty string without arguments, the string form of
  the single argument, the form of the tuple otherwise.\<close>

definition exception_str :: "error_instance \<Rightarrow> string" where
  "exception_str e =
     (case args e of
        [] \<Rightarrow> []
      | [a] \<Rightarrow> py_str a
      | a # b # cs \<Rightarrow> ''('' @ join '', '' (map py_repr (a # b # cs)) @ '')'')"

text \<open>\<^verbatim>\<open>except C\<close> applied to a raised instance.\<close>

definition catches :: "kind \<Rightarrow> error_instance \<Rightarrow> bool" where
  "catches C e = (C \<in> set (mro (kind e)))"

text \<open>
  Modelled from the spec: field-access(instance, name) is not a function of the module,
  which only stores \<^verbatim>\<open>self.kwargs = kwargs\<close>. It is the read-only lookup into the retained
  field map of the specification, with \<open>None\<close> for "absent".
\<close>

definition field_access :: "error_instance \<Rightarrow> string \<Rightarrow> pyval option" where
  "field_access e name = kwargs e name"

section \<open>The placeholders of a template\<close>

text \<open>
  The pieces of a format string, read by the same scanner as \<open>format_literal\<close> without
  looking anything up: literal text (escaped braces resolved) and the names of the
  replacement fields, in order.
\<close>

datatype segment = Literal string | Field string

fun cons_char :: "char \<Rightarrow> segment list \<Rightarrow> segment list" where
  "cons_char c (Literal s # segs) = Literal (c # s) # segs"
| "cons_char c segs = Literal [c] # segs"

fun on_ok :: "('a \<Rightarrow> 'b) \<Rightarrow> py_error + 'a \<Rightarrow> py_error + 'b" where
  "on_ok f (Inl e) = Inl e"
| "on_ok f (Inr x) = Inr (f x)"

fun parse_literal :: "string \<Rightarrow> py_error + segment list"
  and parse_field :: "string \<Rightarrow> string \<Rightarrow> py_error + segment list"
where
  "parse_literal [] = Inr []"
| "parse_literal [c] =
     (if c = CHR ''{'' \<or> c = CHR ''}'' then Inl ValueError else Inr [Literal [c]])"
| "parse_literal (c # d # cs) =
     (if c = CHR ''{'' then
        (if d = CHR ''{'' then on_ok (cons_char c) (parse_literal cs)
         else parse_field [] (d # cs))
      else if c = CHR ''}'' then
        (if d = CHR ''}'' then on_ok (cons_char c) (parse_literal cs) else Inl ValueError)
      else on_ok (cons_char c) (parse_literal (d # cs)))"
| "parse_field name [] = Inl ValueError"
| "parse_field name (c # cs) =
     (if c = CHR ''}'' then on_ok ((#) (Field name)) (parse_literal cs)
      else if c = CHR ''{'' then Inl ValueError
      else if c = CHR ''['' \<or> c = CHR ''!'' \<or> c = CHR '':'' then Inl NotModelled
      else parse_field (name @ [c]) cs)"

definition segments :: "kind \<Rightarrow> segment list" where
  "segments K = (case parse_literal (fmt K) of Inl e \<Rightarrow> [] | Inr segs \<Rightarrow> segs)"

fun field_names :: "segment list \<Rightarrow> string list" where
  "field_names [] = []"
| "field_names (Literal s # segs) = field_names segs"
| "field_names (Field n # segs) = n # field_names segs"

text \<open>The names a class requires: the placeholders of its template.\<close>

definition required :: "kind \<Rightarrow> string list" where
  "required K = field_names (segments K)"

text \<open>A name that \<open>get_field\<close> looks up among the keyword arguments.\<close>

definition keyword_name :: "string \<Rightarrow> bool" where
  "keyword_name n = (CHR ''.'' \<notin> set n \<and> \<not> list_all is_digit n)"

text \<open>The text a piece stands for in the template, and the text it becomes once the
  fields are substituted; a placeholder without a value stays as it is.\<close>

fun source_text :: "segment \<Rightarrow> string" where
  "source_text (Literal s) = s"
| "source_text (Field n) = ''{'' @ n @ ''}''"

fun substituted :: "kwargs \<Rightarrow> segment \<Rightarrow> string" where
  "substituted kw (Literal s) = s"
| "substituted kw (Field n) =
     (case kw n of None \<Rightarrow> source_text (Field n) | Some v \<Rightarrow> py_str v)"

definition brace_free :: "string \<Rightarrow> bool" where
  "brace_free s = (CHR ''{'' \<notin> set s \<and> CHR ''}'' \<notin> set s)"

fun plain :: "segment \<Rightarrow> bool" where
  "plain (Literal s) = brace_free s"
| "plain (Field n) = (keyword_name n \<and> brace_free n)"

text \<open>Substituting the keyword arguments into the pieces from left to right, as
  \<open>format_literal\<close> does while it scans.\<close>

fun render :: "kwargs \<Rightarrow> segment list \<Rightarrow> py_error + string" where
  "render kw [] = Inr []"
| "render kw (Literal s # segs) = prepend s (render kw segs)"
| "render kw (Field n # segs) =
     (case get_field kw n of
        Inl e \<Rightarrow> Inl e
      | Inr v \<Rightarrow> prepend (py_str v) (render kw segs))"

section \<open>The templates of the module\<close>

text \<open>
  Every template of the module scans without a fault, into literal text without braces
  and fields with plain keyword names, and the pieces put back together are the
  template.
\<close>

lemma parse_fmt: "parse_literal (fmt K) = Inr (segments K)"
  by (cases K) (simp_all add: segments_def)

lemma plain_segments: "list_all plain (segments K)"
  by (cases K) (simp_all add: segments_def brace_free_def keyword_name_def is_digit_def)

lemma source_segments: "concat (map source_text (segments K)) = fmt K"
  by (cases K) (simp_all add: segments_def)

lemma prepend_prepend: "prepend s (prepend t r) = prepend (s @ t) r"
  by (cases r) simp_all

lemma render_cons_char: "render kw (cons_char c segs) = prepend [c] (render kw segs)"
  by (induction c segs rule: cons_char.induct) (simp_all add: prepend_prepend)

lemma format_render_aux:
  "(\<forall>segs. parse_literal t = Inr segs \<longrightarrow> format_literal kw t = render kw segs)"
  "(\<forall>segs. parse_field name t = Inr segs \<longrightarrow> format_field kw name t = render kw segs)"
proof (induction kw t and kw name t rule: format_literal_format_field.induct)
  case (1 kw)
  show ?case by simp
next
  case (2 kw c)
  show ?case by auto
next
  case (3 kw c d cs)
  show ?case
  proof (intro allI impI)
    fix segs assume p: "parse_literal (c # d # cs) = Inr segs"
    show "format_literal kw (c # d # cs) = render kw segs"
      using p 3 by (auto split: if_splits elim!: on_ok.elims simp: render_cons_char)
  qed
next
  case (4 kw name)
  show ?case by simp
next
  case (5 kw name c cs)
  show ?case
  proof (intro allI impI)
    fix segs assume p: "parse_field name (c # cs) = Inr segs"
    show "format_field kw name (c # cs) = render kw segs"
      using p 5 by (auto split: if_splits sum.splits elim!: on_ok.elims)
  qed
qed

lemma format_render: "parse_literal t = Inr segs \<Longrightarrow> format t kw = render kw segs"
  using format_render_aux(1) by (simp add: format_def)

lemma format_fmt: "format (fmt K) kw = render kw (segments K)"
  by (rule format_render) (rule parse_fmt)

lemma get_field_keyword:
  "keyword_name n \<Longrightarrow>
   get_field kw n = (case kw n of None \<Rightarrow> Inl (KeyError n) | Some v \<Rightarrow> Inr v)"
  by (simp add: get_field_def keyword_name_def)

lemma render_ok:
  "list_all plain segs \<Longrightarrow> \<forall>n\<in>set (field_names segs). kw n \<noteq> None \<Longrightarrow>
   render kw segs = Inr (concat (map (substituted kw) segs))"
  by (induction segs rule: field_names.induct) (auto simp: get_field_keyword)

lemma render_missing:
  "list_all plain segs \<Longrightarrow> find (\<lambda>n. kw n = None) (field_names segs) = Some n \<Longrightarrow>
   render kw segs = Inl (KeyError n)"
  by (induction segs rule: field_names.induct)
     (auto simp: get_field_keyword split: option.splits if_splits)

lemma find_missing:
  "\<not> set ns \<subseteq> dom kw \<Longrightarrow> \<exists>n. find (\<lambda>n. kw n = None) ns = Some n \<and> n \<in> set ns \<and> kw n = None"
  by (induction ns) auto

lemma substituted_cong:
  "\<forall>n\<in>set (field_names segs). kw n = kw' n \<Longrightarrow>
   map (substituted kw) segs = map (substituted kw') segs"
  by (induction segs rule: field_names.induct) auto

lemma sublist_substituted:
  "n \<in> set (field_names segs) \<Longrightarrow> kw n = Some v \<Longrightarrow>
   sublist (py_str v) (concat (map (substituted kw) segs))"
proof (induction segs rule: field_names.induct)
  case 1
  then show ?case by simp
next
  case (2 s segs)
  then show ?case by (simp add: sublist_append)
next
  case (3 m segs)
  show ?case
  proof (cases "m = n")
    case True
    then show ?thesis using 3 by simp
  next
    case False
    then show ?thesis using 3 by (simp add: sublist_append)
  qed
qed

lemma brace_origin:
  "list_all plain segs \<Longrightarrow> \<forall>n\<in>set (field_names segs). kw n \<noteq> None \<Longrightarrow>
   c \<in> set (concat (map (substituted kw) segs)) \<Longrightarrow> c = CHR ''{'' \<or> c = CHR ''}'' \<Longrightarrow>
   \<exists>n\<in>set (field_names segs). \<exists>v. kw n = Some v \<and> c \<in> set (py_str v)"
  by (induction segs rule: field_names.induct) (auto simp: brace_free_def)

lemma self_not_required: "''self'' \<notin> set (required K)"
  by (cases K) (simp_all add: required_def segments_def)

lemma construct_ok:
  assumes "kw ''self'' = None" and "set (required K) \<subseteq> dom kw"
  shows "construct K kw =
    Inr \<lparr>kind = K, args = [PStr (concat (map (substituted kw) (segments K)))], kwargs = kw\<rparr>"
proof -
  have "\<forall>n\<in>set (field_names (segments K)). kw n \<noteq> None"
    using assms(2) by (auto simp: required_def)
  then have "render kw (segments K) = Inr (concat (map (substituted kw) (segments K)))"
    by (rule render_ok [OF plain_segments])
  then show ?thesis
    using assms(1) by (simp add: construct_def format_fmt)
qed

lemma construct_fails:
  assumes "\<not> set (required K) \<subseteq> dom kw"
  shows "\<exists>n. find (\<lambda>n. kw n = None) (required K) = Some n \<and>
    construct K kw = Inl (if kw ''self'' = None then KeyError n else TypeError)"
proof -
  from find_missing [OF assms] obtain n
    where n: "find (\<lambda>n. kw n = None) (required K) = Some n" by blast
  then have "render kw (segments K) = Inl (KeyError n)"
    unfolding required_def by (rule render_missing [OF plain_segments])
  then show ?thesis
    using n by (auto simp: construct_def format_fmt)
qed

lemma construct_InrD:
  assumes "construct K kw = Inr e"
  shows "kw ''self'' = None" and "set (required K) \<subseteq> dom kw"
    and "e = \<lparr>kind = K, args = [PStr (concat (map (substituted kw) (segments K)))], kwargs = kw\<rparr>"
proof -
  show s: "kw ''self'' = None"
    using assms by (auto simp: construct_def split: if_splits)
  show r: "set (required K) \<subseteq> dom kw"
  proof (rule ccontr)
    assume "\<not> set (required K) \<subseteq> dom kw"
    from construct_fails [OF this] assms show False by auto
  qed
  show "e = \<lparr>kind = K, args = [PStr (concat (map (substituted kw) (segments K)))], kwargs = kw\<rparr>"
    using construct_ok [OF s r] assms by simp
qed

text \<open>The placeholders of each template, in the order they occur: the required fields
  of the class.\<close>

lemma required_table:
  "required BotoCoreError = []"
  "required DataNotFoundError = [''data_path'']"
  "required NoCredentialsError = []"
  "required NoRegionError = [''env_var'']"
  "required UnknownSignatureVersionError = [''signature_version'']"
  "required ServiceNotInRegionError = [''service_name'', ''region_name'']"
  "required ProfileNotFound = [''profile'']"
  "required ConfigParseError = [''path'']"
  "required ConfigNotFound = [''path'']"
  "required MissingParametersError = [''object_name'', ''missing'']"
  "required ValidationError = [''value'', ''param'', ''type_name'']"
  "required UnknownKeyError = [''value'', ''param'', ''choices'']"
  "required RangeError = [''param'', ''min_value'', ''value'', ''max_value'']"
  "required UnknownParameterError = [''name'', ''operation'', ''choices'']"
  "required UnknownServiceStyle = [''service_style'']"
  "required PaginationError = [''message'']"
  "required EventNotFound = [''event_name'']"
  "required ChecksumError = [''checksum_type'', ''expected_checksum'', ''actual_checksum'']"
  "required UnseekableStreamError = [''stream_object'']"
  "required WaiterError = [''name'', ''reason'']"
  "required IncompleteReadError = [''actual_bytes'', ''expected_bytes'']"
  "required InvalidExpressionError = [''expression'']"
  "required UnknownCredentialError = [''name'']"
  by (simp_all add: required_def segments_def)

lemma mro_table:
  "mro BotoCoreError = [BotoCoreError]"
  "mro ValidationError = [ValidationError, BotoCoreError]"
  "mro UnknownKeyError = [UnknownKeyError, ValidationError, BotoCoreError]"
  "mro RangeError = [RangeError, ValidationError, BotoCoreError]"
  "mro UnknownParameterError = [UnknownParameterError, ValidationError, BotoCoreError]"
  by (simp_all add: mro.simps)

lemma str_int_small: "str_int 50 = ''50''" "str_int 1 = ''1''" "str_int 10 = ''10''"
  "str_int 5 = ''5''"
  by code_simp+

lemma exception_str_construct:
  "construct K kw = Inr e \<Longrightarrow> exception_str e = concat (map (substituted kw) (segments K))"
  by (drule construct_InrD(3)) (simp add: exception_str_def)

lemma format_construct:
  "construct K kw = Inr e \<Longrightarrow> format (fmt K) kw = Inr (exception_str e)"
  by (auto simp: construct_def exception_str_def split: if_splits sum.splits)

lemma range_msg:
  "concat (map (substituted [''param'' \<mapsto> PStr ''Count'', ''value'' \<mapsto> PInt 50,
         ''min_value'' \<mapsto> PInt 1, ''max_value'' \<mapsto> PInt 10]) (segments RangeError))
   = ''Value out of range for param Count: 1 <= 50 <= 10''"
  by (simp add: segments_def str_int_small)

section \<open>Rendering at construction\<close>

text \<open>
  C1 (as amended). For every class \<open>K\<close> and every keyword map that supplies exactly the
  placeholders of \<open>K\<close>'s template, construction returns an instance that keeps the map
  and whose message is the template with every placeholder replaced by the string form
  of its value: the template is the concatenation of the source texts of its pieces,
  whose literal pieces carry no brace, and the message is the concatenation of the same
  pieces with each field replaced. The message contains the string form of every
  supplied value, and it contains an opening brace only if the string form of a supplied
  value does: values are inserted as they are, so placeholder-shaped text of a value
  stays in the message.
\<close>

theorem construct_exact_fields:
  assumes "dom kw = set (required K)"
  shows "\<exists>e. construct K kw = Inr e \<and> kwargs e = kw
      \<and> exception_str e = concat (map (substituted kw) (segments K))
      \<and> concat (map source_text (segments K)) = fmt K
      \<and> list_all plain (segments K)
      \<and> (\<forall>n\<in>set (required K). \<exists>v. kw n = Some v \<and> sublist (py_str v) (exception_str e))
      \<and> ((\<forall>n\<in>set (required K). \<forall>v. kw n = Some v \<longrightarrow> CHR ''{'' \<notin> set (py_str v))
           \<longrightarrow> CHR ''{'' \<notin> set (exception_str e))"
proof -
  have self: "kw ''self'' = None"
    using assms self_not_required [of K] by (auto simp: dom_def)
  have sub: "set (required K) \<subseteq> dom kw"
    using assms by simp
  let ?msg = "concat (map (substituted kw) (segments K))"
  let ?e = "\<lparr>kind = K, args = [PStr ?msg], kwargs = kw\<rparr>"
  have c: "construct K kw = Inr ?e"
    by (rule construct_ok [OF self sub])
  have m: "exception_str ?e = ?msg"
    by (simp add: exception_str_def)
  have contains: "\<forall>n\<in>set (required K). \<exists>v. kw n = Some v \<and> sublist (py_str v) ?msg"
  proof
    fix n assume n: "n \<in> set (required K)"
    with sub obtain v where v: "kw n = Some v" by auto
    from n have "n \<in> set (field_names (segments K))" by (simp add: required_def)
    then have "sublist (py_str v) ?msg" using v by (rule sublist_substituted)
    with v
    show "\<exists>v. kw n = Some v \<and> sublist (py_str v) ?msg" by blast
  qed
  have nonone: "\<forall>n\<in>set (field_names (segments K)). kw n \<noteq> None"
    using sub by (auto simp: required_def)
  have braces: "(\<forall>n\<in>set (required K). \<forall>v. kw n = Some v \<longrightarrow> CHR ''{'' \<notin> set (py_str v))
           \<longrightarrow> CHR ''{'' \<notin> set ?msg"
  proof (intro impI notI)
    assume free: "\<forall>n\<in>set (required K). \<forall>v. kw n = Some v \<longrightarrow> CHR ''{'' \<notin> set (py_str v)"
    assume "CHR ''{'' \<in> set ?msg"
    then have "\<exists>n\<in>set (field_names (segments K)). \<exists>v. kw n = Some v \<and> CHR ''{'' \<in> set (py_str v)"
      using plain_segments nonone by (intro brace_origin) auto
    with free show False by (auto simp: required_def)
  qed
  show ?thesis
    using c m contains braces source_segments [of K] plain_segments [of K]
    by (intro exI [of _ ?e]) simp
qed

theorem construct_exact_fields_witness:
  "dom [''param'' \<mapsto> PStr ''Count'', ''value'' \<mapsto> PInt 50,
         ''min_value'' \<mapsto> PInt 1, ''max_value'' \<mapsto> PInt 10] = set (required RangeError)
   \<and> (\<exists>e. construct RangeError [''param'' \<mapsto> PStr ''Count'', ''value'' \<mapsto> PInt 50,
         ''min_value'' \<mapsto> PInt 1, ''max_value'' \<mapsto> PInt 10] = Inr e
        \<and> exception_str e = ''Value out of range for param Count: 1 <= 50 <= 10'')"
proof -
  let ?kw = "[''param'' \<mapsto> PStr ''Count'', ''value'' \<mapsto> PInt 50,
         ''min_value'' \<mapsto> PInt 1, ''max_value'' \<mapsto> PInt (10::int)]"
  have h: "dom ?kw = set (required RangeError)"
    by (auto simp: required_table)
  from construct_exact_fields [OF h] obtain e where
    "construct RangeError ?kw = Inr e"
    "exception_str e = concat (map (substituted ?kw) (segments RangeError))"
    by blast
  with h show ?thesis
    by (simp only: range_msg) blast
qed

theorem placeholder_text_counterexample:
  "dom [''data_path'' \<mapsto> PStr ''{data_path}''] = set (required DataNotFoundError)
   \<and> on_ok exception_str (construct DataNotFoundError [''data_path'' \<mapsto> PStr ''{data_path}''])
       = Inr ''Unable to load data for: {data_path}''
   \<and> sublist (source_text (Field ''data_path'')) ''Unable to load data for: {data_path}''"
proof -
  have "sublist ''{data_path}'' (''Unable to load data for: '' @ ''{data_path}'')"
    by (rule sublist_append_leftI)
  then show ?thesis
    by (simp add: required_table construct_def format_def get_field_def is_digit_def
        exception_str_def)
qed

text \<open>
  C2. For every class \<open>K\<close> and every keyword map that lacks a placeholder of \<open>K\<close>'s
  template, construction raises and returns no instance: the \<^verbatim>\<open>KeyError\<close> of the first
  missing placeholder in template order, raised by the substitution (or the
  \<^verbatim>\<open>TypeError\<close> of the call itself when the map has the key \<^verbatim>\<open>self\<close>).
\<close>

theorem construct_missing_field_fails:
  assumes "\<not> set (required K) \<subseteq> dom kw"
  shows "(\<exists>n. find (\<lambda>n. kw n = None) (required K) = Some n \<and>
           construct K kw = Inl (if kw ''self'' = None then KeyError n else TypeError))
         \<and> (\<forall>e. construct K kw \<noteq> Inr e)"
  using construct_fails [OF assms] by auto

theorem construct_missing_field_fails_witness:
  "\<not> set (required RangeError) \<subseteq> dom [''param'' \<mapsto> PStr ''Count'', ''value'' \<mapsto> PInt 50,
         ''min_value'' \<mapsto> PInt 1]
   \<and> construct RangeError [''param'' \<mapsto> PStr ''Count'', ''value'' \<mapsto> PInt 50,
         ''min_value'' \<mapsto> PInt 1] = Inl (KeyError ''max_value'')"
proof -
  let ?kw = "[''param'' \<mapsto> PStr ''Count'', ''value'' \<mapsto> PInt 50, ''min_value'' \<mapsto> PInt (1::int)]"
  have h: "\<not> set (required RangeError) \<subseteq> dom ?kw"
    by (simp add: required_table)
  from construct_missing_field_fails [OF h] h show ?thesis
    by (simp add: required_table)
qed

section \<open>The validation family\<close>

text \<open>
  C3. The three narrow validation classes form a three-level chain: the resolution order
  of each is the class itself, \<open>ValidationError\<close>, \<open>BotoCoreError\<close>, so an instance
  is caught by \<^verbatim>\<open>except\<close> clauses for all three, and an instance of \<open>ValidationError\<close> is
  caught as \<open>BotoCoreError\<close>. The message of a narrow instance is the class's own
  template formatted with the keyword map; construction succeeds exactly when the
  placeholders of that template are supplied (and \<^verbatim>\<open>self\<close> is not a key). The field
  \<^verbatim>\<open>type_name\<close> of the template of \<open>ValidationError\<close> is required by none of them, and
  \<open>RangeError\<close> requires \<^verbatim>\<open>param\<close>, \<^verbatim>\<open>value\<close>, \<^verbatim>\<open>min_value\<close> and \<^verbatim>\<open>max_value\<close>.
\<close>

theorem narrow_validation_kinds:
  assumes "K \<in> {UnknownKeyError, RangeError, UnknownParameterError}"
  shows "mro K = [K, ValidationError, BotoCoreError]
     \<and> mro ValidationError = [ValidationError, BotoCoreError]
     \<and> (\<forall>e. construct K kw = Inr e \<longrightarrow>
           catches K e \<and> catches ValidationError e \<and> catches BotoCoreError e
           \<and> format (fmt K) kw = Inr (exception_str e))
     \<and> (\<forall>e. construct ValidationError kw = Inr e \<longrightarrow>
           catches ValidationError e \<and> catches BotoCoreError e)
     \<and> ((\<exists>e. construct K kw = Inr e) \<longleftrightarrow> kw ''self'' = None \<and> set (required K) \<subseteq> dom kw)
     \<and> ''type_name'' \<notin> set (required K)
     \<and> set (required RangeError) = {''param'', ''value'', ''min_value'', ''max_value''}"
proof -
  have m: "mro K = [K, ValidationError, BotoCoreError]"
    using assms by (auto simp: mro_table)
  have m2: "mro ValidationError = [ValidationError, BotoCoreError]"
    by (simp add: mro_table)
  have c1: "\<forall>e. construct K kw = Inr e \<longrightarrow>
           catches K e \<and> catches ValidationError e \<and> catches BotoCoreError e
           \<and> format (fmt K) kw = Inr (exception_str e)"
  proof (intro allI impI)
    fix e assume e: "construct K kw = Inr e"
    from construct_InrD(3) [OF e] have "kind e = K" by simp
    with m format_construct [OF e]
    show "catches K e \<and> catches ValidationError e \<and> catches BotoCoreError e
           \<and> format (fmt K) kw = Inr (exception_str e)"
      by (simp add: catches_def)
  qed
  have c2: "\<forall>e. construct ValidationError kw = Inr e \<longrightarrow>
           catches ValidationError e \<and> catches BotoCoreError e"
  proof (intro allI impI)
    fix e assume e: "construct ValidationError kw = Inr e"
    from construct_InrD(3) [OF e] have "kind e = ValidationError" by simp
    with m2 show "catches ValidationError e \<and> catches BotoCoreError e"
      by (simp add: catches_def)
  qed
  have c3: "(\<exists>e. construct K kw = Inr e) \<longleftrightarrow> kw ''self'' = None \<and> set (required K) \<subseteq> dom kw"
    using construct_InrD(1,2) [of K kw] construct_ok [of kw K] by blast
  have c4: "''type_name'' \<notin> set (required K)"
    using assms by (auto simp: required_table)
  have c5: "set (required RangeError) = {''param'', ''value'', ''min_value'', ''max_value''}"
    by (auto simp: required_table)
  show ?thesis
    by (intro conjI m m2 c1 c2 c3 c4 c5)
qed

theorem narrow_validation_kinds_witness:
  "RangeError \<in> {UnknownKeyError, RangeError, UnknownParameterError}
   \<and> (\<exists>e. construct RangeError [''param'' \<mapsto> PStr ''Count'', ''value'' \<mapsto> PInt 50,
         ''min_value'' \<mapsto> PInt 1, ''max_value'' \<mapsto> PInt 10] = Inr e
        \<and> catches RangeError e \<and> catches ValidationError e \<and> catches BotoCoreError e)
   \<and> construct ValidationError [''param'' \<mapsto> PStr ''Count'', ''value'' \<mapsto> PInt 50,
         ''min_value'' \<mapsto> PInt 1, ''max_value'' \<mapsto> PInt 10] = Inl (KeyError ''type_name'')"
proof -
  let ?kw = "[''param'' \<mapsto> PStr ''Count'', ''value'' \<mapsto> PInt 50,
         ''min_value'' \<mapsto> PInt 1, ''max_value'' \<mapsto> PInt (10::int)]"
  have h: "RangeError \<in> {UnknownKeyError, RangeError, UnknownParameterError}"
    by simp
  have s: "?kw ''self'' = None \<and> set (required RangeError) \<subseteq> dom ?kw"
    by (simp add: required_table)
  have v: "construct ValidationError ?kw = Inl (KeyError ''type_name'')"
    by (simp add: construct_def format_def get_field_def is_digit_def)
  note t = narrow_validation_kinds [OF h, of ?kw]
  from t have c1: "\<forall>e. construct RangeError ?kw = Inr e \<longrightarrow>
           catches RangeError e \<and> catches ValidationError e \<and> catches BotoCoreError e
           \<and> format (fmt RangeError) ?kw = Inr (exception_str e)"
    by (elim conjE)
  from t have c3: "(\<exists>e. construct RangeError ?kw = Inr e) \<longleftrightarrow>
      ?kw ''self'' = None \<and> set (required RangeError) \<subseteq> dom ?kw"
    by (elim conjE)
  from c3 s have "\<exists>e. construct RangeError ?kw = Inr e"
    by (rule iffD2)
  then obtain e where e: "construct RangeError ?kw = Inr e" ..
  from c1 [rule_format, OF e]
  have "catches RangeError e \<and> catches ValidationError e \<and> catches BotoCoreError e"
    by blast
  with e have "\<exists>e. construct RangeError ?kw = Inr e
        \<and> catches RangeError e \<and> catches ValidationError e \<and> catches BotoCoreError e"
    by blast
  with h v show ?thesis
    by (intro conjI)
qed

section \<open>Scenarios\<close>

text \<open>
  C4. \<^verbatim>\<open>RangeError(param="Count", value=50, min_value=1, max_value=10)\<close> renders as
  \<^verbatim>\<open>Value out of range for param Count: 1 <= 50 <= 10\<close>.
\<close>

theorem range_error_scenario:
  "on_ok exception_str
     (construct RangeError
        [''param'' \<mapsto> PStr ''Count'', ''value'' \<mapsto> PInt 50,
         ''min_value'' \<mapsto> PInt 1, ''max_value'' \<mapsto> PInt 10])
   = Inr ''Value out of range for param Count: 1 <= 50 <= 10''"
  by (simp add: construct_def format_def get_field_def is_digit_def exception_str_def
      str_int_small)

text \<open>
  C5. \<^verbatim>\<open>UnknownKeyError(value="Foo", param="Action", choices=["Read", "Write"])\<close> renders
  with two spaces after the period and the list in its \<^verbatim>\<open>repr\<close> form; for any list of
  choices the message is the fixed prefix followed by the string form of the list, a
  function of the list alone.
\<close>

theorem unknown_key_scenario:
  "on_ok exception_str
     (construct UnknownKeyError
        [''value'' \<mapsto> PStr ''Foo'', ''param'' \<mapsto> PStr ''Action'',
         ''choices'' \<mapsto> PList [PStr ''Read'', PStr ''Write'']])
   = Inr ''Unknown key 'Foo' for param 'Action'.  Must be one of: ['Read', 'Write']''
   \<and> on_ok exception_str
     (construct UnknownKeyError
        [''value'' \<mapsto> PStr ''Foo'', ''param'' \<mapsto> PStr ''Action'', ''choices'' \<mapsto> PList cs])
   = Inr (''Unknown key 'Foo' for param 'Action'.  Must be one of: '' @ py_str (PList cs))"
  by (simp add: construct_def format_def get_field_def is_digit_def exception_str_def
      repr_str_def repr_char_def printable_def Let_def)

section \<open>The retained keyword map and string conversion\<close>

text \<open>
  C6. A constructed instance retains the keyword map unchanged: field access returns the
  supplied value for a supplied name and "absent" for any other name.
\<close>

theorem field_access_round_trip:
  assumes "construct K kw = Inr e"
  shows "kwargs e = kw
     \<and> (\<forall>n v. kw n = Some v \<longrightarrow> field_access e n = Some v)
     \<and> (\<forall>n. n \<notin> dom kw \<longrightarrow> field_access e n = None)"
  using construct_InrD(3) [OF assms] by (auto simp: field_access_def)

theorem field_access_round_trip_witness:
  "\<exists>e. construct RangeError [''param'' \<mapsto> PStr ''Count'', ''value'' \<mapsto> PInt 50,
         ''min_value'' \<mapsto> PInt 1, ''max_value'' \<mapsto> PInt 10] = Inr e
     \<and> field_access e ''min_value'' = Some (PInt 1)
     \<and> field_access e ''max_value'' = Some (PInt 10)
     \<and> field_access e ''type_name'' = None"
proof -
  let ?kw = "[''param'' \<mapsto> PStr ''Count'', ''value'' \<mapsto> PInt 50,
         ''min_value'' \<mapsto> PInt 1, ''max_value'' \<mapsto> PInt (10::int)]"
  have "?kw ''self'' = None" and "set (required RangeError) \<subseteq> dom ?kw"
    by (simp_all add: required_table)
  then obtain e where e: "construct RangeError ?kw = Inr e"
    using construct_ok by blast
  from field_access_round_trip [OF e] have "field_access e = ?kw"
    by (auto simp: field_access_def)
  with e show ?thesis
    by (intro exI [of _ e]) simp
qed

text \<open>
  C7. The string conversion of a constructed instance is the message formatted at
  construction, stored in \<^verbatim>\<open>args\<close>; it reads nothing else, so it has the same value at
  every call and does not change when the retained keyword map is replaced.
\<close>

theorem string_conversion_stable:
  assumes "construct K kw = Inr e"
  shows "format (fmt K) kw = Inr (exception_str e)
     \<and> args e = [PStr (exception_str e)]
     \<and> (\<forall>kw'. exception_str (e\<lparr>kwargs := kw'\<rparr>) = exception_str e)"
  using construct_InrD(3) [OF assms] format_construct [OF assms]
  by (simp add: exception_str_def)

theorem string_conversion_stable_witness:
  "\<exists>e. construct RangeError [''param'' \<mapsto> PStr ''Count'', ''value'' \<mapsto> PInt 50,
         ''min_value'' \<mapsto> PInt 1, ''max_value'' \<mapsto> PInt 10] = Inr e
     \<and> exception_str (e\<lparr>kwargs := [''param'' \<mapsto> PStr ''Count'', ''value'' \<mapsto> PInt 5,
         ''min_value'' \<mapsto> PInt 1, ''max_value'' \<mapsto> PInt 10]\<rparr>)
        = ''Value out of range for param Count: 1 <= 50 <= 10''
     \<and> format (fmt RangeError) [''param'' \<mapsto> PStr ''Count'', ''value'' \<mapsto> PInt 5,
         ''min_value'' \<mapsto> PInt 1, ''max_value'' \<mapsto> PInt 10]
        = Inr ''Value out of range for param Count: 1 <= 5 <= 10''"
proof -
  let ?kw = "[''param'' \<mapsto> PStr ''Count'', ''value'' \<mapsto> PInt 50,
         ''min_value'' \<mapsto> PInt 1, ''max_value'' \<mapsto> PInt (10::int)]"
  have "?kw ''self'' = None" and "set (required RangeError) \<subseteq> dom ?kw"
    by (simp_all add: required_table)
  then obtain e where e: "construct RangeError ?kw = Inr e"
    using construct_ok by blast
  have f: "format (fmt RangeError) ?kw = Inr ''Value out of range for param Count: 1 <= 50 <= 10''"
    by (simp add: format_def get_field_def is_digit_def str_int_small)
  have g: "format (fmt RangeError) [''param'' \<mapsto> PStr ''Count'', ''value'' \<mapsto> PInt 5,
         ''min_value'' \<mapsto> PInt 1, ''max_value'' \<mapsto> PInt 10]
        = Inr ''Value out of range for param Count: 1 <= 5 <= 10''"
    by (simp add: format_def get_field_def is_digit_def str_int_small)
  from string_conversion_stable [OF e] f
  have "exception_str e = ''Value out of range for param Count: 1 <= 50 <= 10''"
    and "\<forall>kw'. exception_str (e\<lparr>kwargs := kw'\<rparr>) = exception_str e"
    by simp_all
  with e g show ?thesis
    by (intro exI [of _ e]) simp
qed

section \<open>Extra fields, templates without placeholders, single-pass substitution\<close>

text \<open>
  C8 (as amended). For every class, a keyword map that supplies the placeholders of the
  template and further keys, none of them \<^verbatim>\<open>self\<close>, constructs an instance: the whole
  map is retained, so the extra fields can be read back, and the message is the one
  constructed from the required fields alone.
\<close>

theorem construct_extra_fields:
  assumes "set (required K) \<subset> dom kw" and "kw ''self'' = None"
  shows "\<exists>e e0. construct K kw = Inr e \<and> kwargs e = kw
      \<and> construct K (kw |` set (required K)) = Inr e0
      \<and> exception_str e = exception_str e0
      \<and> (\<forall>n. n \<in> dom kw - set (required K) \<longrightarrow> field_access e n = kw n)"
proof -
  let ?r = "kw |` set (required K)"
  have sub: "set (required K) \<subseteq> dom kw"
    using assms(1) by auto
  have sub0: "set (required K) \<subseteq> dom ?r"
    using sub by auto
  have self0: "?r ''self'' = None"
    using assms(2) by (simp add: restrict_map_def)
  have "\<forall>n\<in>set (field_names (segments K)). kw n = ?r n"
    by (simp add: required_def)
  then have same: "map (substituted kw) (segments K) = map (substituted ?r) (segments K)"
    by (rule substituted_cong)
  let ?e = "\<lparr>kind = K, args = [PStr (concat (map (substituted kw) (segments K)))], kwargs = kw\<rparr>"
  let ?f = "\<lparr>kind = K, args = [PStr (concat (map (substituted ?r) (segments K)))],
              kwargs = ?r\<rparr>"
  have c: "construct K kw = Inr ?e"
    by (rule construct_ok [OF assms(2) sub])
  have c0: "construct K ?r = Inr ?f"
    by (rule construct_ok [OF self0 sub0])
  from same have "concat (map (substituted kw) (segments K))
      = concat (map (substituted ?r) (segments K))"
    by (rule arg_cong)
  then have eq: "exception_str ?e = exception_str ?f"
    by (simp add: exception_str_def)
  show ?thesis
    using c c0 eq by (intro exI [of _ ?e] exI [of _ ?f]) (simp add: field_access_def)
qed

theorem construct_extra_fields_witness:
  "set (required DataNotFoundError) \<subset> dom [''data_path'' \<mapsto> PStr ''s3'', ''hint'' \<mapsto> PInt 5]
   \<and> [''data_path'' \<mapsto> PStr ''s3'', ''hint'' \<mapsto> PInt 5] ''self'' = None
   \<and> (\<exists>e. construct DataNotFoundError [''data_path'' \<mapsto> PStr ''s3'', ''hint'' \<mapsto> PInt 5] = Inr e
        \<and> field_access e ''hint'' = Some (PInt 5)
        \<and> exception_str e = ''Unable to load data for: s3'')"
proof -
  let ?kw = "[''data_path'' \<mapsto> PStr ''s3'', ''hint'' \<mapsto> PInt (5::int)]"
  have h1: "set (required DataNotFoundError) \<subset> dom ?kw"
    by (auto simp: required_table)
  have h2: "?kw ''self'' = None"
    by simp
  from construct_extra_fields [OF h1 h2] obtain e where
    e: "construct DataNotFoundError ?kw = Inr e" and k: "kwargs e = ?kw"
    by blast
  have "format (fmt DataNotFoundError) ?kw = Inr ''Unable to load data for: s3''"
    by (simp add: format_def get_field_def is_digit_def)
  with format_construct [OF e] have m: "exception_str e = ''Unable to load data for: s3''"
    by simp
  have f: "field_access e ''hint'' = Some (PInt 5)"
    using k by (simp add: field_access_def)
  from h1 h2 e m f show ?thesis
    by blast
qed

theorem extra_field_self_counterexample:
  "set (required DataNotFoundError) \<subset> dom [''data_path'' \<mapsto> PStr ''s3'', ''self'' \<mapsto> PInt 1]
   \<and> construct DataNotFoundError [''data_path'' \<mapsto> PStr ''s3'', ''self'' \<mapsto> PInt 1]
       = Inl TypeError"
  by (auto simp: required_table construct_def)

text \<open>
  C9 (as amended). \<open>NoCredentialsError\<close> and \<open>BotoCoreError\<close> have templates without
  placeholders: for every keyword map without the key \<^verbatim>\<open>self\<close>, empty or not,
  construction succeeds and the message is the template itself.
\<close>

theorem construct_no_placeholder:
  assumes "K = NoCredentialsError \<or> K = BotoCoreError" and "kw ''self'' = None"
  shows "construct K kw = Inr \<lparr>kind = K, args = [PStr (fmt K)], kwargs = kw\<rparr>
     \<and> on_ok exception_str (construct K kw) = Inr (fmt K)
     \<and> fmt NoCredentialsError = ''Unable to locate credentials''
     \<and> fmt BotoCoreError = ''An unspecified error occured''"
  using assms by (auto simp: construct_def format_def exception_str_def)

theorem construct_no_placeholder_witness:
  "(NoCredentialsError = NoCredentialsError \<or> NoCredentialsError = BotoCoreError)
   \<and> [''profile'' \<mapsto> PStr ''dev''] ''self'' = None
   \<and> on_ok exception_str (construct NoCredentialsError [''profile'' \<mapsto> PStr ''dev''])
       = Inr ''Unable to locate credentials''"
proof -
  have h1: "NoCredentialsError = NoCredentialsError \<or> NoCredentialsError = BotoCoreError"
    by simp
  have h2: "[''profile'' \<mapsto> PStr ''dev''] ''self'' = None"
    by simp
  from construct_no_placeholder [where K = NoCredentialsError
      and kw = "[''profile'' \<mapsto> PStr ''dev'']", OF h1 h2]
  have "on_ok exception_str (construct NoCredentialsError [''profile'' \<mapsto> PStr ''dev''])
       = Inr (fmt NoCredentialsError)"
    by blast
  with h1 h2 show ?thesis
    by simp
qed

theorem no_placeholder_self_counterexample:
  "construct NoCredentialsError [''self'' \<mapsto> PInt 1] = Inl TypeError"
  by (simp add: construct_def)

lemma sublist_trans:
  assumes "sublist xs ys" and "sublist ys zs"
  shows "sublist xs zs"
proof -
  from assms obtain ps ss qs ts where "ys = ps @ xs @ ss" and "zs = qs @ ys @ ts"
    by (auto simp: sublist_def)
  then have "zs = (qs @ ps) @ xs @ (ss @ ts)"
    by simp
  then show ?thesis
    unfolding sublist_def by blast
qed

text \<open>
  C10. Substitution is a single pass: when the string form of the value supplied for a
  placeholder of the template contains text of the shape \<^verbatim>\<open>{other}\<close>, for any name
  \<open>other\<close>, supplied or not, the message contains that text and the whole string
  form of the value as they are; the message is the concatenation of the literal pieces
  and the string forms of the values.
\<close>

theorem substitution_single_pass:
  assumes "construct K kw = Inr e" and "n \<in> set (required K)" and "kw n = Some v"
    and "sublist (source_text (Field other)) (py_str v)"
  shows "sublist (source_text (Field other)) (exception_str e)
     \<and> sublist (py_str v) (exception_str e)
     \<and> exception_str e = concat (map (substituted kw) (segments K))"
proof -
  have m: "exception_str e = concat (map (substituted kw) (segments K))"
    by (rule exception_str_construct [OF assms(1)])
  from assms(2) have "n \<in> set (field_names (segments K))"
    by (simp add: required_def)
  then have v: "sublist (py_str v) (exception_str e)"
    unfolding m using assms(3) by (rule sublist_substituted)
  from assms(4) v have "sublist (source_text (Field other)) (exception_str e)"
    by (rule sublist_trans)
  with v m show ?thesis
    by simp
qed

theorem substitution_single_pass_witness:
  "\<exists>e. construct ServiceNotInRegionError
          [''service_name'' \<mapsto> PStr ''{region_name}'', ''region_name'' \<mapsto> PStr ''eu''] = Inr e
     \<and> exception_str e = ''Service {region_name} not available in region eu''
     \<and> sublist ''{region_name}'' (exception_str e)"
proof -
  let ?kw = "[''service_name'' \<mapsto> PStr ''{region_name}'', ''region_name'' \<mapsto> PStr ''eu'']"
  have "?kw ''self'' = None" and "set (required ServiceNotInRegionError) \<subseteq> dom ?kw"
    by (simp_all add: required_table)
  then obtain e where e: "construct ServiceNotInRegionError ?kw = Inr e"
    using construct_ok by blast
  have n: "''service_name'' \<in> set (required ServiceNotInRegionError)"
    by (simp add: required_table)
  have v: "?kw ''service_name'' = Some (PStr ''{region_name}'')"
    by simp
  have s: "sublist (source_text (Field ''region_name'')) (py_str (PStr ''{region_name}''))"
    by simp
  have m: "concat (map (substituted ?kw) (segments ServiceNotInRegionError))
      = ''Service {region_name} not available in region eu''"
    by (simp add: segments_def)
  note t = substitution_single_pass [OF e n v s]
  from t have a: "sublist (source_text (Field ''region_name'')) (exception_str e)"
    by (rule conjunct1)
  from t have b: "exception_str e
      = concat (map (substituted ?kw) (segments ServiceNotInRegionError))"
    by (elim conjE)
  from b m have c: "exception_str e = ''Service {region_name} not available in region eu''"
    by (rule trans)
  from a have a': "sublist ''{region_name}'' (exception_str e)"
    by simp
  from e c a' show ?thesis
    by blast
qed

end
